theory Spec2Isabelle
  imports Main "HOL-Library.Word"
begin

section \<open>Strings\<close>

text \<open>
  A JavaScript string is a sequence of UTF-16 code units. String literals of the source are
  written \<open>js ''...''\<close>.
\<close>

type_synonym jsstring = "16 word list"

definition js :: "string \<Rightarrow> jsstring" where
  "js s = map of_char s"

text \<open>
  \<open>String.prototype.trim\<close> strips WhiteSpace and LineTerminator code points from both ends:
  TAB, LF, VT, FF, CR, SP, NBSP, the Unicode space separators (Zs), LS, PS and U+FEFF.
\<close>

definition is_whitespace :: "16 word \<Rightarrow> bool" where
  "is_whitespace c \<longleftrightarrow>
     c \<in> {0x0009, 0x000A, 0x000B, 0x000C, 0x000D, 0x0020, 0x00A0, 0x1680,
          0x2000, 0x2001, 0x2002, 0x2003, 0x2004, 0x2005, 0x2006, 0x2007, 0x2008, 0x2009, 0x200A,
          0x2028, 0x2029, 0x202F, 0x205F, 0x3000, 0xFEFF}"

definition trim :: "jsstring \<Rightarrow> jsstring" where
  "trim s = rev (dropWhile is_whitespace (rev (dropWhile is_whitespace s)))"

text \<open>
  \<open>String.prototype.replaceAll\<close> with a string pattern and a string replacement
  (ECMAScript: StringIndexOf, GetSubstitution with no captures, then the assembly loop).
  An empty pattern matches at every position from 0 to the length of the string.
\<close>

function stringIndexOf :: "jsstring \<Rightarrow> jsstring \<Rightarrow> nat \<Rightarrow> nat option" where
  "stringIndexOf s search fromIndex =
     (if length s < fromIndex + length search then None
      else if take (length search) (drop fromIndex s) = search then Some fromIndex
      else stringIndexOf s search (Suc fromIndex))"
  by pat_completeness auto
termination
  by (relation "measure (\<lambda>(s, search, fromIndex). Suc (length s) - fromIndex)") auto

fun getSubstitution :: "jsstring \<Rightarrow> jsstring \<Rightarrow> nat \<Rightarrow> jsstring \<Rightarrow> jsstring" where
  "getSubstitution matched str position [] = []"
| "getSubstitution matched str position [c] = [c]"
| "getSubstitution matched str position (c # d # templ) =
     (if c = 0x24 \<and> d = 0x24 then 0x24 # getSubstitution matched str position templ
      else if c = 0x24 \<and> d = 0x60 then take position str @ getSubstitution matched str position templ
      else if c = 0x24 \<and> d = 0x26 then matched @ getSubstitution matched str position templ
      else if c = 0x24 \<and> d = 0x27 then
        drop (min (position + length matched) (length str)) str
          @ getSubstitution matched str position templ
      else c # getSubstitution matched str position (d # templ))"

function replaceAll_from :: "jsstring \<Rightarrow> jsstring \<Rightarrow> jsstring \<Rightarrow> nat \<Rightarrow> nat \<Rightarrow> jsstring" where
  "replaceAll_from s search replaceValue endOfLastMatch fromIndex =
     (case stringIndexOf s search fromIndex of
        None \<Rightarrow> drop endOfLastMatch s
      | Some p \<Rightarrow>
          take (p - endOfLastMatch) (drop endOfLastMatch s)
            @ getSubstitution search s p replaceValue
            @ replaceAll_from s search replaceValue (p + length search)
                (p + max 1 (length search)))"
  by pat_completeness auto
termination
proof (relation "measure (\<lambda>(s, search, replaceValue, endOfLastMatch, fromIndex).
                   Suc (length s) - fromIndex)")
  show "wf (measure (\<lambda>(s, search, replaceValue, endOfLastMatch, fromIndex).
                   Suc (length s) - fromIndex))"
    by simp
next
  fix s search :: jsstring and replaceValue :: jsstring and endOfLastMatch fromIndex p :: nat
  assume found: "stringIndexOf s search fromIndex = Some p"
  have "stringIndexOf s search i = Some q \<Longrightarrow> i \<le> q \<and> q \<le> length s" for i q
  proof (induction s search i rule: stringIndexOf.induct)
    case (1 s search i)
    then show ?case
      by (simp split: if_splits)
  qed
  with found have "fromIndex \<le> p \<and> p \<le> length s"
    by blast
  then show "((s, search, replaceValue, p + length search, p + max 1 (length search)),
              (s, search, replaceValue, endOfLastMatch, fromIndex))
             \<in> measure (\<lambda>(s, search, replaceValue, endOfLastMatch, fromIndex).
                   Suc (length s) - fromIndex)"
    by (simp add: max_def) arith
qed

definition replaceAll :: "jsstring \<Rightarrow> jsstring \<Rightarrow> jsstring \<Rightarrow> jsstring" where
  "replaceAll s search replaceValue = replaceAll_from s search replaceValue 0 0"

section \<open>Data model\<close>

datatype MessageRole = User | Assistant | Code

text \<open>
  The elements of the message array. The TypeScript type makes \<open>role\<close> and \<open>text\<close>
  mandatory, but \<open>annotateLastMessage\<close> on an empty array builds the object \<open>{}\<close>, and
  \<open>handleSubmit\<close> adds an \<open>isHTML\<close> property, so every property is optional here
  (\<open>None\<close> is \<open>undefined\<close>).
\<close>

record message =
  m_role :: "MessageRole option"
  m_text :: "jsstring option"
  m_isHTML :: "bool option"

record thread =
  t_id :: jsstring
  t_title :: jsstring
  t_lastMessage :: jsstring
  t_lastUpdated :: jsstring
  t_messages :: "message list"

text \<open>\<open>Partial<Thread>\<close>: the properties an update carries.\<close>

record thread_updates =
  u_id :: "jsstring option"
  u_title :: "jsstring option"
  u_lastMessage :: "jsstring option"
  u_lastUpdated :: "jsstring option"
  u_messages :: "message list option"

record tool_call =
  tc_id :: jsstring
  tc_name :: jsstring
  tc_arguments :: jsstring

record tool_output =
  o_output :: "jsstring option"
  o_tool_call_id :: jsstring

text \<open>
  What the program does to the outside, in the order it does it: requests, console output,
  calls that are started and not awaited, and the calls of \<open>setInputDisabled\<close>.
  \<^item> \<open>HttpGetThreads token\<close> is \<open>GET /api/v1/chat_threads\<close>;
  \<^item> \<open>HttpPostThread token thread_id fingerprint\<close> is \<open>POST /api/v1/chat_threads\<close>;
  \<^item> \<open>HttpPostTokens fingerprint utoken\<close> is \<open>POST /api/v1/tokens\<close>;
  \<^item> \<open>HttpPostActions threadId token runId toolCallOutputs\<close> is
    \<open>POST /api/assistants/threads/threadId/actions\<close>.
\<close>

datatype event =
    PreventDefault
  | HttpGetThreads jsstring
  | HttpPostThread jsstring jsstring jsstring
  | HttpPostTokens jsstring jsstring
  | HttpPostActions jsstring jsstring jsstring "tool_output list"
  | Call_sendMessage jsstring
  | Call_functionCallHandler tool_call
  | Call_syncThreadWithBackend thread jsstring
  | Call_handleReadableStream
  | SetInputDisabled bool
  | ScrollToBottom
  | ConsoleError string
  | Alert string
  | UnhandledRejection

text \<open>
  The state of the \<open>Chat\<close> component (the \<open>useState\<close> cells the functions below read or
  write), the part of \<open>localStorage\<close> they use, and the log of events. A \<open>localStorage\<close>
  entry is represented by the value whose JSON text it holds, one field per key:
  \<open>cached_thread_ids\<close>, \<open>current_thread_id_<token>\<close> and \<open>current_thread_messages_<token>\<close>;
  writes to it succeed. \<open>window_defined\<close> is \<open>typeof window !== 'undefined'\<close>.

  A function is modelled as one step from world to world: an asynchronous function runs to
  its end with the answers the environment gives, and no other handler runs between its
  \<open>await\<close>s. A call that the source starts without awaiting it is an event of the log.
\<close>

record world =
  tokens :: int
  userInput :: jsstring
  messages :: "message list"
  inputDisabled :: bool
  currentThreadId :: jsstring
  threads :: "thread list"
  userToken :: jsstring
  window_defined :: bool
  ls_cached_thread_ids :: "jsstring list option"
  ls_current_thread_id :: "jsstring \<rightharpoonup> jsstring"
  ls_current_thread_messages :: "jsstring \<rightharpoonup> message list"
  log :: "event list"

datatype error = TypeError

definition emit :: "event list \<Rightarrow> world \<Rightarrow> world" where
  "emit evs w = w\<lparr>log := log w @ evs\<rparr>"

definition new_events :: "world \<Rightarrow> world \<Rightarrow> event list" where
  "new_events w w' = drop (length (log w)) (log w')"

section \<open>Stream Reconciler\<close>

text \<open>
  The stream handlers are closures: \<open>cid\<close> and \<open>tok\<close> are the values of \<open>currentThreadId\<close>
  and \<open>userToken\<close> they captured, \<open>now\<close> is \<open>new Date().toISOString()\<close> at the call.
  The updater passed to \<open>setMessages\<close> runs on the current message array.
\<close>

definition apply_updates :: "thread \<Rightarrow> thread_updates \<Rightarrow> thread" where
  "apply_updates t u =
     \<lparr>t_id = (case u_id u of None \<Rightarrow> t_id t | Some v \<Rightarrow> v),
      t_title = (case u_title u of None \<Rightarrow> t_title t | Some v \<Rightarrow> v),
      t_lastMessage = (case u_lastMessage u of None \<Rightarrow> t_lastMessage t | Some v \<Rightarrow> v),
      t_lastUpdated = (case u_lastUpdated u of None \<Rightarrow> t_lastUpdated t | Some v \<Rightarrow> v),
      t_messages = (case u_messages u of None \<Rightarrow> t_messages t | Some v \<Rightarrow> v)\<rparr>"

definition updateThread :: "jsstring \<Rightarrow> jsstring \<Rightarrow> thread_updates \<Rightarrow> world \<Rightarrow> world" where
  "updateThread tok threadId updates w =
     (let newThreads =
            map (\<lambda>thread. if t_id thread = threadId then apply_updates thread updates else thread)
              (threads w);
          updatedThread = find (\<lambda>t. t_id t = threadId) newThreads
      in case updatedThread of
           None \<Rightarrow> w\<lparr>threads := newThreads\<rparr>
         | Some t \<Rightarrow>
             if tok \<noteq> [] then emit [Call_syncThreadWithBackend t tok] (w\<lparr>threads := newThreads\<rparr>)
             else w\<lparr>threads := newThreads\<rparr>)"

text \<open>\<open>undefined + text\<close> is the string \<open>"undefined"\<close> followed by \<open>text\<close>.\<close>

definition js_add :: "jsstring option \<Rightarrow> jsstring \<Rightarrow> jsstring" where
  "js_add a b = (case a of None \<Rightarrow> js ''undefined'' @ b | Some s \<Rightarrow> s @ b)"

definition appendToLastMessage ::
  "jsstring \<Rightarrow> jsstring \<Rightarrow> jsstring \<Rightarrow> jsstring \<Rightarrow> world \<Rightarrow> error + world" where
  "appendToLastMessage cid tok now txt w =
     (if messages w = [] then Inl TypeError
      else
        let lastMessage = last (messages w);
            updatedLastMessage = lastMessage\<lparr>m_text := Some (js_add (m_text lastMessage) txt)\<rparr>;
            newMessages = butlast (messages w) @ [updatedLastMessage]
        in Inr ((updateThread tok cid
                   \<lparr>u_id = None, u_title = None,
                    u_lastMessage = m_text updatedLastMessage,
                    u_lastUpdated = Some now,
                    u_messages = Some newMessages\<rparr> w)\<lparr>messages := newMessages\<rparr>))"

definition appendMessage ::
  "jsstring \<Rightarrow> jsstring \<Rightarrow> jsstring \<Rightarrow> MessageRole \<Rightarrow> jsstring \<Rightarrow> world \<Rightarrow> world" where
  "appendMessage cid tok now r txt w =
     (let newMessages = messages w @ [\<lparr>m_role = Some r, m_text = Some txt, m_isHTML = None\<rparr>]
      in (updateThread tok cid
            \<lparr>u_id = None, u_title = None,
             u_lastMessage = Some txt,
             u_lastUpdated = Some now,
             u_messages = Some newMessages\<rparr> w)\<lparr>messages := newMessages\<rparr>)"

record annotation =
  a_type :: jsstring
  a_text :: jsstring
  a_file_path :: "jsstring option"

text \<open>
  The \<open>forEach\<close> of \<open>annotateLastMessage\<close>; \<open>a_file_path\<close> is \<open>annotation.file_path.file_id\<close>
  (\<open>None\<close> when the annotation has no \<open>file_path\<close>).
\<close>

fun annotate :: "message \<Rightarrow> annotation list \<Rightarrow> error + message" where
  "annotate m [] = Inr m"
| "annotate m (a # as) =
     (if a_type a = js ''file_path'' then
        (case m_text m of
           None \<Rightarrow> Inl TypeError
         | Some t \<Rightarrow>
             (case a_file_path a of
                None \<Rightarrow> Inl TypeError
              | Some file_id \<Rightarrow>
                  annotate (m\<lparr>m_text := Some (replaceAll t (a_text a) (js ''/api/files/'' @ file_id))\<rparr>) as))
      else annotate m as)"

definition annotateLastMessage :: "annotation list \<Rightarrow> world \<Rightarrow> error + world" where
  "annotateLastMessage annotations w =
     (let lastMessage =
            (if messages w = [] then \<lparr>m_role = None, m_text = None, m_isHTML = None\<rparr>
             else last (messages w))
      in case annotate lastMessage annotations of
           Inl e \<Rightarrow> Inl e
         | Inr updatedLastMessage \<Rightarrow>
             Inr (w\<lparr>messages := butlast (messages w) @ [updatedLastMessage]\<rparr>))"

record text_delta =
  d_value :: "jsstring option"
  d_annotations :: "annotation list option"

definition handleTextDelta ::
  "jsstring \<Rightarrow> jsstring \<Rightarrow> jsstring \<Rightarrow> text_delta \<Rightarrow> world \<Rightarrow> error + world" where
  "handleTextDelta cid tok now delta w =
     (case (case d_value delta of
              None \<Rightarrow> Inr w
            | Some v \<Rightarrow> appendToLastMessage cid tok now v w) of
        Inl e \<Rightarrow> Inl e
      | Inr w1 \<Rightarrow>
          (case d_annotations delta of
             None \<Rightarrow> Inr w1
           | Some annotations \<Rightarrow> annotateLastMessage annotations w1))"

text \<open>A run of text-delta events, each with the time it is handled at.\<close>

fun handleTextDeltas ::
  "jsstring \<Rightarrow> jsstring \<Rightarrow> (jsstring \<times> text_delta) list \<Rightarrow> world \<Rightarrow> error + world" where
  "handleTextDeltas cid tok [] w = Inr w"
| "handleTextDeltas cid tok ((now, delta) # ds) w =
     (case handleTextDelta cid tok now delta w of
        Inl e \<Rightarrow> Inl e
      | Inr w1 \<Rightarrow> handleTextDeltas cid tok ds w1)"

definition delta_text :: "text_delta \<Rightarrow> jsstring" where
  "delta_text d = (case d_value d of None \<Rightarrow> [] | Some v \<Rightarrow> v)"

definition no_file_path_annotation :: "text_delta \<Rightarrow> bool" where
  "no_file_path_annotation d \<longleftrightarrow>
     (case d_annotations d of
        None \<Rightarrow> True
      | Some annotations \<Rightarrow> list_all (\<lambda>a. a_type a \<noteq> js ''file_path'') annotations)"

text \<open>
  \<open>toolCallDelta\<close>: \<open>tcd_input\<close> is \<open>delta.code_interpreter?.input\<close>; the empty string is
  falsy as well.
\<close>

record code_interpreter_delta =
  ci_input :: "jsstring option"

record tool_call_delta =
  tcd_type :: jsstring
  tcd_code_interpreter :: "code_interpreter_delta option"

definition tcd_input :: "tool_call_delta \<Rightarrow> jsstring option" where
  "tcd_input delta =
     (case tcd_code_interpreter delta of None \<Rightarrow> None | Some ci \<Rightarrow> ci_input ci)"

definition toolCallDelta ::
  "jsstring \<Rightarrow> jsstring \<Rightarrow> jsstring \<Rightarrow> tool_call_delta \<Rightarrow> world \<Rightarrow> error + world" where
  "toolCallDelta cid tok now delta w =
     (if tcd_type delta \<noteq> js ''code_interpreter'' then Inr w
      else case tcd_input delta of
             None \<Rightarrow> Inr w
           | Some input \<Rightarrow>
               if input = [] then Inr w else appendToLastMessage cid tok now input w)"

section \<open>Requests and their answers\<close>

text \<open>
  What \<open>fetch\<close> gives: the promise rejects (network failure), or there is a response with its
  \<open>ok\<close> flag and its body, \<open>None\<close> when \<open>response.json()\<close> rejects. The environment fixes the
  answer of each endpoint and the visitor id of FingerprintJS (\<open>None\<close> when it rejects).
\<close>

datatype 'a response = FetchRejected | Response bool "'a option"

record env =
  fingerprint :: "jsstring option"
  chat_threads_get :: "jsstring list response"
  chat_threads_post :: "unit response"
  tokens_post :: "int response"
  actions_post :: "unit response"

text \<open>The body of a response that is there, is \<open>ok\<close> and parses.\<close>

fun ok_body :: "'a response \<Rightarrow> 'a option" where
  "ok_body FetchRejected = None"
| "ok_body (Response ok body) = (if ok then body else None)"

section \<open>Thread Synchronizer\<close>

definition getThreadsFromLocalStorage :: "world \<Rightarrow> jsstring list" where
  "getThreadsFromLocalStorage w =
     (if \<not> window_defined w then []
      else case ls_cached_thread_ids w of None \<Rightarrow> [] | Some storedThreads \<Rightarrow> storedThreads)"

definition saveThreadsToLocalStorage :: "jsstring list \<Rightarrow> world \<Rightarrow> world" where
  "saveThreadsToLocalStorage ths w =
     (if \<not> window_defined w then w else w\<lparr>ls_cached_thread_ids := Some ths\<rparr>)"

definition fetchThreadsFromBackend :: "env \<Rightarrow> jsstring \<Rightarrow> world \<Rightarrow> world \<times> jsstring list" where
  "fetchThreadsFromBackend e tok w =
     (let w1 = emit [HttpGetThreads tok] w;
          failed = (emit [ConsoleError ''Error fetching threads:''] w1, [])
      in case chat_threads_get e of
           FetchRejected \<Rightarrow> failed
         | Response ok body \<Rightarrow>
             if \<not> ok then failed
             else case body of
                    None \<Rightarrow> failed
                  | Some ths \<Rightarrow> (saveThreadsToLocalStorage ths w1, ths))"

definition syncThreadWithBackend :: "env \<Rightarrow> thread \<Rightarrow> jsstring \<Rightarrow> world \<Rightarrow> world" where
  "syncThreadWithBackend e thread tok w =
     (let cachedThreads = getThreadsFromLocalStorage w;
          (w1, threadExists) =
            (if t_id thread \<in> set cachedThreads then (w, True)
             else let (w', backendThreads) = fetchThreadsFromBackend e tok w
                  in (w', t_id thread \<in> set backendThreads));
          failed = emit [ConsoleError ''Error syncing thread with backend:'']
      in if threadExists then w1
         else case fingerprint e of
                None \<Rightarrow> failed w1
              | Some fp \<Rightarrow>
                  let w2 = emit [HttpPostThread tok (t_id thread) fp] w1
                  in case chat_threads_post e of
                       FetchRejected \<Rightarrow> failed w2
                     | Response ok body \<Rightarrow>
                         if \<not> ok then failed w2
                         else saveThreadsToLocalStorage (cachedThreads @ [t_id thread]) w2)"

fun is_registration_post :: "event \<Rightarrow> bool" where
  "is_registration_post (HttpPostThread tok thread_id fp) = True"
| "is_registration_post _ = False"

section \<open>Token Meter and submit\<close>

definition upsell_text :: jsstring where
  "upsell_text = js ''Needpedia Staff: Welcome! This AI is only designed to greet people and answer a few questions. To access our more powerful AI, which has more tokens and can even make posts for you, simply create an account (which is totally free). If you like what you see, feel free to contribute through Patreon [here](https://www.patreon.com/Needpedia).''"

definition handleSubmit_finally :: "world \<Rightarrow> world" where
  "handleSubmit_finally w = emit [SetInputDisabled False] (w\<lparr>inputDisabled := False\<rparr>)"

definition handleSubmit_catch :: "world \<Rightarrow> world" where
  "handleSubmit_catch w =
     emit [ConsoleError ''Error checking tokens:'',
           Alert ''An error occurred while checking tokens. Please try again.''] w"

definition handleSubmit :: "env \<Rightarrow> world \<Rightarrow> world" where
  "handleSubmit e w =
     (let w0 = emit [PreventDefault] w
      in if trim (userInput w) = [] then w0
         else case fingerprint e of
                None \<Rightarrow> handleSubmit_finally (handleSubmit_catch w0)
              | Some fp \<Rightarrow>
                  let w1 = emit [HttpPostTokens fp (userToken w)] w0
                  in case tokens_post e of
                       FetchRejected \<Rightarrow> handleSubmit_finally (handleSubmit_catch w1)
                     | Response ok body \<Rightarrow>
                         (case body of
                            None \<Rightarrow> handleSubmit_finally (handleSubmit_catch w1)
                          | Some n \<Rightarrow>
                              let w2 = w1\<lparr>tokens := n\<rparr>
                              in if n > 0 then
                                   handleSubmit_finally
                                     (emit [ScrollToBottom]
                                        ((emit [Call_sendMessage (userInput w)] w2)
                                           \<lparr>messages := messages w2
                                              @ [\<lparr>m_role = Some User, m_text = Some (userInput w),
                                                  m_isHTML = None\<rparr>],
                                            userInput := []\<rparr>))
                                 else
                                   handleSubmit_finally
                                     (w2\<lparr>messages := messages w2
                                          @ [\<lparr>m_role = Some Assistant, m_text = Some upsell_text,
                                              m_isHTML = Some True\<rparr>]\<rparr>)))"

fun is_quota_request :: "event \<Rightarrow> bool" where
  "is_quota_request (HttpPostTokens fp tok) = True"
| "is_quota_request _ = False"

fun is_send :: "event \<Rightarrow> bool" where
  "is_send (Call_sendMessage txt) = True"
| "is_send _ = False"

section \<open>Tool calls\<close>

text \<open>
  \<open>functionCallHandler\<close> is a property of the component: for a tool call its promise
  resolves with an output or rejects. \<open>Promise.all\<close> over the mapped calls starts every call,
  in the order of the batch, and rejects when one of them does.
\<close>

datatype handler_result = Resolved "jsstring option" | Rejected

record requires_action =
  ra_run_id :: jsstring
  ra_tool_calls :: "tool_call list"

fun collect_outputs :: "(tool_call \<Rightarrow> handler_result) \<Rightarrow> tool_call list \<Rightarrow> tool_output list option" where
  "collect_outputs h [] = Some []"
| "collect_outputs h (toolCall # rest) =
     (case h toolCall of
        Rejected \<Rightarrow> None
      | Resolved result \<Rightarrow>
          (case collect_outputs h rest of
             None \<Rightarrow> None
           | Some outs \<Rightarrow> Some (\<lparr>o_output = result, o_tool_call_id = tc_id toolCall\<rparr> # outs)))"

definition submitActionResult ::
  "env \<Rightarrow> jsstring \<Rightarrow> jsstring \<Rightarrow> jsstring \<Rightarrow> tool_output list \<Rightarrow> world \<Rightarrow> world" where
  "submitActionResult e cid tok runId toolCallOutputs w =
     (let w1 = emit [HttpPostActions cid tok runId toolCallOutputs] w;
          failed = emit [ConsoleError ''Error submitting action result:'', SetInputDisabled False]
                     (w1\<lparr>inputDisabled := False\<rparr>)
      in case actions_post e of
           FetchRejected \<Rightarrow> failed
         | Response ok body \<Rightarrow> if \<not> ok then failed else emit [Call_handleReadableStream] w1)"

definition handleRequiresAction ::
  "(tool_call \<Rightarrow> handler_result) \<Rightarrow> env \<Rightarrow> jsstring \<Rightarrow> jsstring \<Rightarrow> requires_action \<Rightarrow> world \<Rightarrow> world" where
  "handleRequiresAction functionCallHandler e cid tok ev w =
     (let runId = ra_run_id ev;
          toolCalls = ra_tool_calls ev;
          w1 = emit (map Call_functionCallHandler toolCalls) w
      in case collect_outputs functionCallHandler toolCalls of
           None \<Rightarrow> emit [UnhandledRejection] w1
         | Some toolCallOutputs \<Rightarrow>
             submitActionResult e cid tok runId toolCallOutputs
               (emit [SetInputDisabled True] (w1\<lparr>inputDisabled := True\<rparr>)))"

fun output_of :: "handler_result \<Rightarrow> jsstring option" where
  "output_of (Resolved result) = result"
| "output_of Rejected = None"

section \<open>Chat View: switching threads\<close>

definition switchThread :: "jsstring \<Rightarrow> world \<Rightarrow> world" where
  "switchThread threadId w =
     (case find (\<lambda>t. t_id t = threadId) (threads w) of
        None \<Rightarrow> emit [ConsoleError ''Thread not found in local state''] w
      | Some thread \<Rightarrow>
          let msgs = t_messages thread;
              w1 = w\<lparr>currentThreadId := threadId, messages := msgs\<rparr>
          in if userToken w \<noteq> [] then
               if \<not> window_defined w then emit [ConsoleError ''Error switching thread:''] w1
               else w1\<lparr>ls_current_thread_id := (ls_current_thread_id w1)(userToken w \<mapsto> threadId),
                       ls_current_thread_messages :=
                         (ls_current_thread_messages w1)(userToken w \<mapsto> msgs)\<rparr>
             else w1)"

section \<open>The stream transform of sendMessage\<close>

text \<open>
  A chunk is a byte array. \<open>JSON.parse(new TextDecoder().decode(chunk))\<close> is a parameter
  \<open>parse\<close> of the transform: \<open>None\<close> when it throws, otherwise the parsed value. An object
  lists its properties, each name once; a number is given by its integer value.
\<close>

type_synonym chunk = "8 word list"

datatype json =
    JNull
  | JBool bool
  | JNum int
  | JStr jsstring
  | JArr "json list"
  | JObj "(jsstring \<times> json) list"

text \<open>
  Reading a property: \<open>null.p\<close> throws, an object gives the property or \<open>undefined\<close>
  (\<open>None\<close>), and none of the properties read here exists on a boolean, number, string or
  array. \<open>get_opt\<close> is the optional chaining \<open>v?.p\<close> on a value that may be \<open>undefined\<close>.
\<close>

fun js_get :: "json \<Rightarrow> jsstring \<Rightarrow> error + json option" where
  "js_get JNull p = Inl TypeError"
| "js_get (JObj props) p = Inr (map_of props p)"
| "js_get v p = Inr None"

fun get_opt :: "json option \<Rightarrow> jsstring \<Rightarrow> json option" where
  "get_opt None p = None"
| "get_opt (Some JNull) p = None"
| "get_opt (Some (JObj props)) p = map_of props p"
| "get_opt (Some v) p = None"

fun truthy :: "json option \<Rightarrow> bool" where
  "truthy None = False"
| "truthy (Some JNull) = False"
| "truthy (Some (JBool b)) = b"
| "truthy (Some (JNum n)) = (n \<noteq> 0)"
| "truthy (Some (JStr s)) = (s \<noteq> [])"
| "truthy (Some v) = True"

record stream_state =
  completionTokens :: "json option"
  enqueued :: "chunk list"

text \<open>
  The body of the \<open>try\<close> block up to the call of \<open>controller.enqueue\<close>: the new value of
  \<open>window.completionTokens\<close>, or the exception.
\<close>

definition inspect_chunk :: "json \<Rightarrow> json option \<Rightarrow> error + json option" where
  "inspect_chunk data ct =
     (case js_get data (js ''event'') of
        Inl err \<Rightarrow> Inl err
      | Inr ev \<Rightarrow>
          if ev = Some (JStr (js ''thread.run.step.completed''))
             \<and> get_opt (get_opt (Some data) (js ''data'')) (js ''type'')
                 = Some (JStr (js ''message_creation''))
          then
            let usage = get_opt (get_opt (Some data) (js ''data'')) (js ''usage'')
            in if truthy (get_opt usage (js ''completion_tokens''))
               then Inr (get_opt usage (js ''completion_tokens''))
               else Inr ct
          else Inr ct)"

definition transform :: "(chunk \<Rightarrow> json option) \<Rightarrow> chunk \<Rightarrow> stream_state \<Rightarrow> stream_state" where
  "transform parse c s =
     (case parse c of
        None \<Rightarrow> s\<lparr>enqueued := enqueued s @ [c]\<rparr>
      | Some data \<Rightarrow>
          (case inspect_chunk data (completionTokens s) of
             Inl err \<Rightarrow> s\<lparr>enqueued := enqueued s @ [c]\<rparr>
           | Inr ct \<Rightarrow> s\<lparr>completionTokens := ct, enqueued := enqueued s @ [c]\<rparr>))"

fun pipeThrough :: "(chunk \<Rightarrow> json option) \<Rightarrow> chunk list \<Rightarrow> stream_state \<Rightarrow> stream_state" where
  "pipeThrough parse [] s = s"
| "pipeThrough parse (c # cs) s = pipeThrough parse cs (transform parse c s)"

text \<open>A world and an environment to build examples from: nothing stored, every request fails.\<close>

definition world0 :: world where
  "world0 = \<lparr>tokens = 0, userInput = [], messages = [], inputDisabled = False,
     currentThreadId = [], threads = [], userToken = [], window_defined = True,
     ls_cached_thread_ids = None, ls_current_thread_id = Map.empty,
     ls_current_thread_messages = Map.empty, log = []\<rparr>"

definition env0 :: env where
  "env0 = \<lparr>fingerprint = None, chat_threads_get = FetchRejected, chat_threads_post = FetchRejected,
     tokens_post = FetchRejected, actions_post = FetchRejected\<rparr>"

text \<open>
  Examples. Two threads \<open>A\<close> and \<open>B\<close> of one message each, and a world in which \<open>A\<close> is
  the current thread, its message is displayed and the user has typed \<open>"hi"\<close>; an environment
  in which the quota endpoint answers \<open>{tokens: 0}\<close>; a batch of two tool calls, a handler
  that resolves with the name of the function and one that rejects.
\<close>

definition message_one :: message where
  "message_one = \<lparr>m_role = Some User, m_text = Some (js ''one''), m_isHTML = None\<rparr>"

definition message_two :: message where
  "message_two = \<lparr>m_role = Some User, m_text = Some (js ''two''), m_isHTML = None\<rparr>"

definition upsell_message :: message where
  "upsell_message = \<lparr>m_role = Some Assistant, m_text = Some upsell_text, m_isHTML = Some True\<rparr>"

definition thread_A :: thread where
  "thread_A = \<lparr>t_id = js ''A'', t_title = js ''one'', t_lastMessage = js ''one'',
     t_lastUpdated = js ''2024-01-01T00:00:00.000Z'', t_messages = [message_one]\<rparr>"

definition thread_B :: thread where
  "thread_B = \<lparr>t_id = js ''B'', t_title = js ''two'', t_lastMessage = js ''two'',
     t_lastUpdated = js ''2024-01-02T00:00:00.000Z'', t_messages = [message_two]\<rparr>"

definition world_AB :: world where
  "world_AB = world0\<lparr>userInput := js ''hi'', messages := [message_one],
     currentThreadId := js ''A'', threads := [thread_A, thread_B], userToken := js ''K''\<rparr>"

definition env_quota0 :: env where
  "env_quota0 = env0\<lparr>fingerprint := Some (js ''fp''), tokens_post := Response True (Some 0)\<rparr>"

definition call_c1 :: tool_call where
  "call_c1 = \<lparr>tc_id = js ''c1'', tc_name = js ''f'', tc_arguments = js ''{}''\<rparr>"

definition call_c2 :: tool_call where
  "call_c2 = \<lparr>tc_id = js ''c2'', tc_name = js ''g'', tc_arguments = js ''{}''\<rparr>"

definition action_two :: requires_action where
  "action_two = \<lparr>ra_run_id = js ''r'', ra_tool_calls = [call_c1, call_c2]\<rparr>"

definition resolve_with_name :: "tool_call \<Rightarrow> handler_result" where
  "resolve_with_name tc = Resolved (Some (tc_name tc))"

definition reject_all :: "tool_call \<Rightarrow> handler_result" where
  "reject_all tc = Rejected"

section \<open>Basic facts\<close>

lemma new_events_self: "new_events w w = []"
  by (simp add: new_events_def)

lemma new_events_append: "log w' = log w @ evs \<Longrightarrow> new_events w w' = evs"
  by (simp add: new_events_def)

lemma messages_updateThread: "messages (updateThread tok cid u w) = messages w"
  by (simp add: updateThread_def emit_def Let_def split: option.splits)

lemma threads_updateThread:
  "threads (updateThread tok cid u w)
     = map (\<lambda>thread. if t_id thread = cid then apply_updates thread u else thread) (threads w)"
  by (simp add: updateThread_def emit_def Let_def split: option.splits)

lemma find_updated:
  assumes "find (\<lambda>t. t_id t = i) ts = Some T" and "u_id u = None"
  shows "find (\<lambda>t. t_id t = i)
           (map (\<lambda>thread. if t_id thread = i then apply_updates thread u else thread) ts)
         = Some (apply_updates T u)"
  using assms by (induction ts) (auto simp: apply_updates_def)

lemma find_distinct:
  assumes "T \<in> set ts" and "distinct (map t_id ts)"
  shows "find (\<lambda>t. t_id t = t_id T) ts = Some T"
  using assms by (induction ts) (auto simp: image_iff)

lemma dropWhile_all_iff: "(\<forall>x\<in>set (dropWhile P xs). P x) \<longleftrightarrow> (\<forall>x\<in>set xs. P x)"
proof
  assume all: "\<forall>x\<in>set (dropWhile P xs). P x"
  have "dropWhile P xs = []"
  proof (rule ccontr)
    assume ne: "dropWhile P xs \<noteq> []"
    then have "\<not> P (hd (dropWhile P xs))" by (rule hd_dropWhile)
    moreover from ne have "hd (dropWhile P xs) \<in> set (dropWhile P xs)" by simp
    ultimately show False using all by blast
  qed
  then show "\<forall>x\<in>set xs. P x" by (simp add: dropWhile_eq_Nil_conv)
next
  assume "\<forall>x\<in>set xs. P x"
  then show "\<forall>x\<in>set (dropWhile P xs). P x" by (auto dest: set_dropWhileD)
qed

lemma trim_empty_iff: "trim s = [] \<longleftrightarrow> list_all is_whitespace s"
  by (simp add: trim_def dropWhile_eq_Nil_conv dropWhile_all_iff list_all_iff)

section \<open>Stream Reconciler: text deltas\<close>

lemma annotate_no_file_path:
  "list_all (\<lambda>a. a_type a \<noteq> js ''file_path'') as \<Longrightarrow> annotate m as = Inr m"
  by (induction as) auto

text \<open>
  On an empty message list there is no last message: appending to it throws, and annotating
  it with annotations that are not of type \<open>file_path\<close> leaves the one object \<open>{}\<close>.
\<close>

lemma appendToLastMessage_empty:
  "messages w = [] \<Longrightarrow> appendToLastMessage cid tok now v w = Inl TypeError"
  by (simp add: appendToLastMessage_def)

lemma annotateLastMessage_empty:
  assumes "messages w = []" and "list_all (\<lambda>a. a_type a \<noteq> js ''file_path'') as"
  shows "annotateLastMessage as w
           = Inr (w\<lparr>messages := [\<lparr>m_role = None, m_text = None, m_isHTML = None\<rparr>]\<rparr>)"
  using assms by (simp add: annotateLastMessage_def annotate_no_file_path)

lemma appendToLastMessage_messages:
  assumes "messages w \<noteq> []"
  shows "\<exists>w'. appendToLastMessage cid tok now v w = Inr w' \<and>
           messages w' =
             butlast (messages w)
               @ [(last (messages w))\<lparr>m_text := Some (js_add (m_text (last (messages w))) v)\<rparr>]"
  using assms by (simp add: appendToLastMessage_def Let_def messages_updateThread)

lemma annotateLastMessage_no_file_path:
  assumes "messages w \<noteq> []" and "list_all (\<lambda>a. a_type a \<noteq> js ''file_path'') as"
  shows "annotateLastMessage as w = Inr (w\<lparr>messages := messages w\<rparr>)"
  using assms by (simp add: annotateLastMessage_def annotate_no_file_path)

lemma handleTextDelta_plain:
  assumes "messages w \<noteq> []" and "m_text (last (messages w)) = Some t0"
    and "no_file_path_annotation d"
  shows "\<exists>w'. handleTextDelta cid tok now d w = Inr w' \<and>
           messages w'
             = butlast (messages w) @ [(last (messages w))\<lparr>m_text := Some (t0 @ delta_text d)\<rparr>]"
proof (cases "d_value d")
  case None
  have "(last (messages w))\<lparr>m_text := Some t0\<rparr> = last (messages w)"
    using assms(2) by (cases "last (messages w)") simp
  with assms(1) have same:
    "butlast (messages w) @ [(last (messages w))\<lparr>m_text := Some t0\<rparr>] = messages w"
    by simp
  show ?thesis
  proof (cases "d_annotations d")
    case n: None
    with None assms same show ?thesis
      by (simp add: handleTextDelta_def delta_text_def)
  next
    case (Some as)
    with None assms same show ?thesis
      by (simp add: handleTextDelta_def delta_text_def no_file_path_annotation_def
          annotateLastMessage_no_file_path)
  qed
next
  case (Some v)
  from appendToLastMessage_messages [OF assms(1), of cid tok now v]
  obtain w1 where w1: "appendToLastMessage cid tok now v w = Inr w1"
    and m1: "messages w1 = butlast (messages w) @ [(last (messages w))\<lparr>m_text := Some (t0 @ v)\<rparr>]"
    using assms(2) by (auto simp: js_add_def)
  show ?thesis
  proof (cases "d_annotations d")
    case None
    with Some w1 m1 show ?thesis
      by (simp add: handleTextDelta_def delta_text_def)
  next
    case as: (Some as)
    from m1 have "messages w1 \<noteq> []" by simp
    with as assms(3) have "annotateLastMessage as w1 = Inr (w1\<lparr>messages := messages w1\<rparr>)"
      by (simp add: annotateLastMessage_no_file_path no_file_path_annotation_def)
    with Some as w1 m1 show ?thesis
      by (simp add: handleTextDelta_def delta_text_def)
  qed
qed

text \<open>
  C1, as amended. For every sequence of text-delta events none of which carries an annotation
  of type \<open>file_path\<close>, handled one after the other on a message list that is not empty and
  whose last message has a text: the handlers return, every message but the last is left as
  it was, and the text of the last message is the text it had before followed by the values
  of the deltas in arrival order (a delta without a value adds nothing).
\<close>

theorem text_deltas_concat:
  assumes "messages w \<noteq> []" and "m_text (last (messages w)) = Some t0"
    and "list_all (\<lambda>(now, d). no_file_path_annotation d) ds"
  shows "\<exists>w'. handleTextDeltas cid tok ds w = Inr w' \<and>
           messages w' =
             butlast (messages w)
               @ [(last (messages w))
                    \<lparr>m_text := Some (t0 @ concat (map (\<lambda>(now, d). delta_text d) ds))\<rparr>]"
  using assms
proof (induction ds arbitrary: w t0)
  case Nil
  have "(last (messages w))\<lparr>m_text := Some t0\<rparr> = last (messages w)"
    using Nil(2) by (cases "last (messages w)") simp
  with Nil(1) show ?case by simp
next
  case (Cons nd ds)
  obtain now d where nd: "nd = (now, d)" by (cases nd)
  from Cons.prems nd have d: "no_file_path_annotation d"
    and ds: "list_all (\<lambda>(now, d). no_file_path_annotation d) ds" by simp_all
  from handleTextDelta_plain [OF Cons.prems(1,2) d, of cid tok now]
  obtain w1 where w1: "handleTextDelta cid tok now d w = Inr w1"
    and m1: "messages w1
               = butlast (messages w) @ [(last (messages w))\<lparr>m_text := Some (t0 @ delta_text d)\<rparr>]"
    by blast
  from m1 have ne: "messages w1 \<noteq> []"
    and lt: "m_text (last (messages w1)) = Some (t0 @ delta_text d)"
    by simp_all
  from Cons.IH [OF ne lt ds] obtain w' where
    w': "handleTextDeltas cid tok ds w1 = Inr w'" and
    m': "messages w' = butlast (messages w1)
           @ [(last (messages w1))
                \<lparr>m_text := Some ((t0 @ delta_text d) @ concat (map (\<lambda>(now, d). delta_text d) ds))\<rparr>]"
    by blast
  from w1 w' nd have "handleTextDeltas cid tok (nd # ds) w = Inr w'" by simp
  moreover from m' m1 nd have "messages w' = butlast (messages w)
      @ [(last (messages w))
           \<lparr>m_text := Some (t0 @ concat (map (\<lambda>(now, d). delta_text d) (nd # ds)))\<rparr>]"
    by simp
  ultimately show ?case by blast
qed

text \<open>
  The theorem at two deltas, the second with an empty annotation list, on a list of one
  assistant message: \<open>"Hel"\<close> then \<open>"lo"\<close> give \<open>"Hello"\<close>.
\<close>

theorem text_deltas_concat_witness:
  "messages (world0\<lparr>messages := [\<lparr>m_role = Some Assistant, m_text = Some [], m_isHTML = None\<rparr>]\<rparr>) \<noteq> []
   \<and> m_text (last (messages
        (world0\<lparr>messages := [\<lparr>m_role = Some Assistant, m_text = Some [], m_isHTML = None\<rparr>]\<rparr>)))
       = Some []
   \<and> list_all (\<lambda>(now, d). no_file_path_annotation d)
        [(js ''t1'', \<lparr>d_value = Some (js ''Hel''), d_annotations = None\<rparr>),
         (js ''t2'', \<lparr>d_value = Some (js ''lo''), d_annotations = Some []\<rparr>)]
   \<and> (\<exists>w'. handleTextDeltas (js ''T'') (js ''K'')
              [(js ''t1'', \<lparr>d_value = Some (js ''Hel''), d_annotations = None\<rparr>),
               (js ''t2'', \<lparr>d_value = Some (js ''lo''), d_annotations = Some []\<rparr>)]
              (world0\<lparr>messages := [\<lparr>m_role = Some Assistant, m_text = Some [], m_isHTML = None\<rparr>]\<rparr>)
            = Inr w'
          \<and> messages w' = [\<lparr>m_role = Some Assistant, m_text = Some (js ''Hello''), m_isHTML = None\<rparr>])"
  using text_deltas_concat
    [of "world0\<lparr>messages := [\<lparr>m_role = Some Assistant, m_text = Some [], m_isHTML = None\<rparr>]\<rparr>"
        "[]"
        "[(js ''t1'', \<lparr>d_value = Some (js ''Hel''), d_annotations = None\<rparr>),
          (js ''t2'', \<lparr>d_value = Some (js ''lo''), d_annotations = Some []\<rparr>)]"
        "js ''T''" "js ''K''"]
  by (simp add: no_file_path_annotation_def delta_text_def js_def)

text \<open>
  The claim as the specification states it, for every sequence of text-delta events, fails:
  one delta with the value \<open>"see a.txt"\<close> and a \<open>file_path\<close> annotation of the text
  \<open>"a.txt"\<close> with file id \<open>F\<close>, on an empty assistant message, leaves the text
  \<open>"see /api/files/F"\<close>, which is not the concatenation of the values.
\<close>

theorem text_deltas_concat_counterexample:
  "handleTextDeltas (js ''T'') (js ''K'')
     [(js ''2024-01-01T00:00:00.000Z'',
       \<lparr>d_value = Some (js ''see a.txt''),
        d_annotations = Some [\<lparr>a_type = js ''file_path'', a_text = js ''a.txt'',
                               a_file_path = Some (js ''F'')\<rparr>]\<rparr>)]
     (world0\<lparr>messages := [\<lparr>m_role = Some Assistant, m_text = Some [], m_isHTML = None\<rparr>]\<rparr>)
   = Inr (world0\<lparr>messages := [\<lparr>m_role = Some Assistant, m_text = Some (js ''see /api/files/F''),
                                  m_isHTML = None\<rparr>]\<rparr>)
   \<and> js ''see /api/files/F'' \<noteq> [] @ concat [js ''see a.txt'']"
  by (simp add: handleTextDelta_def appendToLastMessage_def annotateLastMessage_def updateThread_def
      world0_def js_add_def replaceAll_def js_def)

section \<open>Stream Reconciler: what a mutation does to the thread list\<close>

text \<open>
  \<open>appendToLastMessage\<close> and \<open>appendMessage\<close> pass the new message list, the new last text
  and the time to \<open>updateThread\<close>: the thread of the captured id gets all three.
\<close>

lemma appendToLastMessage_updates_thread:
  assumes "messages w \<noteq> []" and "find (\<lambda>t. t_id t = cid) (threads w) = Some T"
  shows "\<exists>w'. appendToLastMessage cid tok now txt w = Inr w' \<and>
           find (\<lambda>t. t_id t = cid) (threads w')
             = Some (T\<lparr>t_lastMessage := js_add (m_text (last (messages w))) txt,
                      t_lastUpdated := now, t_messages := messages w'\<rparr>)"
  using assms(1) find_updated [OF assms(2)]
  by (simp add: appendToLastMessage_def Let_def threads_updateThread apply_updates_def)

lemma appendMessage_updates_thread:
  assumes "find (\<lambda>t. t_id t = cid) (threads w) = Some T"
  shows "find (\<lambda>t. t_id t = cid) (threads (appendMessage cid tok now r txt w))
           = Some (T\<lparr>t_lastMessage := txt, t_lastUpdated := now,
                    t_messages := messages (appendMessage cid tok now r txt w)\<rparr>)"
  using find_updated [OF assms]
  by (simp add: appendMessage_def Let_def threads_updateThread apply_updates_def)

text \<open>\<open>annotateLastMessage\<close> never touches the thread list and starts nothing.\<close>

lemma annotateLastMessage_frame:
  assumes "annotateLastMessage annotations w = Inr w'"
  shows "threads w' = threads w \<and> log w' = log w"
  using assms by (auto simp: annotateLastMessage_def Let_def split: sum.splits)

text \<open>
  C4. Every mutation of the message list by the Stream Reconciler is to update the owning
  thread's \<open>lastMessage\<close> and \<open>lastUpdated\<close> and to trigger a persistence write. The code of
  \<open>annotateLastMessage\<close> does not: with the thread \<open>T\<close> current and its last message
  \<open>"see a.txt"\<close>, annotating \<open>"a.txt"\<close> with file id \<open>F\<close> changes the displayed message to
  \<open>"see /api/files/F"\<close> and leaves the thread as it was (\<open>lastMessage\<close>, \<open>lastUpdated\<close> and
  \<open>messages\<close> keep the old values) and the event log empty: \<open>updateThread\<close> is not called.
\<close>

theorem annotate_leaves_thread_stale:
  "annotateLastMessage
     [\<lparr>a_type = js ''file_path'', a_text = js ''a.txt'', a_file_path = Some (js ''F'')\<rparr>]
     (world0\<lparr>messages := [\<lparr>m_role = Some Assistant, m_text = Some (js ''see a.txt''), m_isHTML = None\<rparr>],
             currentThreadId := js ''T'',
             threads := [\<lparr>t_id = js ''T'', t_title = js ''New Chat'', t_lastMessage = js ''see a.txt'',
                          t_lastUpdated = js ''2024-01-01T00:00:00.000Z'',
                          t_messages = [\<lparr>m_role = Some Assistant, m_text = Some (js ''see a.txt''),
                                         m_isHTML = None\<rparr>]\<rparr>],
             userToken := js ''K''\<rparr>)
   = Inr (world0\<lparr>messages := [\<lparr>m_role = Some Assistant, m_text = Some (js ''see /api/files/F''),
                                  m_isHTML = None\<rparr>],
             currentThreadId := js ''T'',
             threads := [\<lparr>t_id = js ''T'', t_title = js ''New Chat'', t_lastMessage = js ''see a.txt'',
                          t_lastUpdated = js ''2024-01-01T00:00:00.000Z'',
                          t_messages = [\<lparr>m_role = Some Assistant, m_text = Some (js ''see a.txt''),
                                         m_isHTML = None\<rparr>]\<rparr>],
             userToken := js ''K''\<rparr>)"
  by (simp add: annotateLastMessage_def world0_def replaceAll_def js_def)

section \<open>Stream Reconciler: tool-call deltas\<close>

text \<open>
  C6. A tool-call-delta whose kind is not \<open>code_interpreter\<close>, or which has no input,
  leaves the message list, and everything else, as it was.
\<close>

theorem toolCallDelta_other_kind:
  assumes "tcd_type delta \<noteq> js ''code_interpreter'' \<or> tcd_input delta = None"
  shows "toolCallDelta cid tok now delta w = Inr w"
  using assms by (auto simp: toolCallDelta_def)

text \<open>The theorem at a delta of kind \<open>function\<close>.\<close>

theorem toolCallDelta_other_kind_witness:
  "tcd_type \<lparr>tcd_type = js ''function'', tcd_code_interpreter = None\<rparr> \<noteq> js ''code_interpreter''
   \<and> toolCallDelta (js ''T'') (js ''K'') (js ''t1'')
        \<lparr>tcd_type = js ''function'', tcd_code_interpreter = None\<rparr>
        (world0\<lparr>messages := [\<lparr>m_role = Some Code, m_text = Some (js ''x''), m_isHTML = None\<rparr>]\<rparr>)
      = Inr (world0\<lparr>messages := [\<lparr>m_role = Some Code, m_text = Some (js ''x''), m_isHTML = None\<rparr>]\<rparr>)"
  using toolCallDelta_other_kind
    [of "\<lparr>tcd_type = js ''function'', tcd_code_interpreter = None\<rparr>" "js ''T''" "js ''K''" "js ''t1''"
        "world0\<lparr>messages := [\<lparr>m_role = Some Code, m_text = Some (js ''x''), m_isHTML = None\<rparr>]\<rparr>"]
  by (simp add: js_def)

section \<open>Stream Reconciler: required actions\<close>

lemma collect_outputs_resolved:
  "list_all (\<lambda>tc. h tc \<noteq> Rejected) tcs \<Longrightarrow>
   collect_outputs h tcs
     = Some (map (\<lambda>tc. \<lparr>o_output = output_of (h tc), o_tool_call_id = tc_id tc\<rparr>) tcs)"
proof (induction tcs)
  case Nil
  then show ?case by simp
next
  case (Cons tc tcs)
  then show ?case by (cases "h tc") simp_all
qed

lemma log_submitActionResult:
  "log (submitActionResult e cid tok runId outs w)
     = log w @ HttpPostActions cid tok runId outs
         # (case actions_post e of
              Response True body \<Rightarrow> [Call_handleReadableStream]
            | _ \<Rightarrow> [ConsoleError ''Error submitting action result:'', SetInputDisabled False])"
  by (simp add: submitActionResult_def emit_def Let_def split: response.splits bool.splits)

text \<open>
  When a handler call rejects, \<open>Promise.all\<close> rejects: every handler has been called, the
  input is not disabled and nothing is submitted.
\<close>

lemma requires_action_rejected:
  assumes "collect_outputs h (ra_tool_calls ev) = None"
  shows "handleRequiresAction h e cid tok ev w
           = w\<lparr>log := log w @ map Call_functionCallHandler (ra_tool_calls ev) @ [UnhandledRejection]\<rparr>"
  using assms by (simp add: handleRequiresAction_def Let_def emit_def)

text \<open>
  C5, as amended. On a requires-action event whose handler calls all resolve, what the
  handler does is, in this order: one call of the function-call handler for each tool call
  of the batch, in the order of the batch, with the input control still as it was; then,
  the whole batch being collected, the disabling of the input; and only then the submission
  to the Assistant Provider, which carries the run id and one \<open>{output, tool_call_id}\<close> pair
  for each tool call of the batch. What follows the submission is the reading of the
  answered stream, with the input left disabled, or, when the submission fails, the error
  report and the enabling of the input.
\<close>

theorem requires_action_order:
  assumes "list_all (\<lambda>tc. h tc \<noteq> Rejected) (ra_tool_calls ev)"
  shows "new_events w (handleRequiresAction h e cid tok ev w)
           = map Call_functionCallHandler (ra_tool_calls ev)
             @ [SetInputDisabled True,
                HttpPostActions cid tok (ra_run_id ev)
                  (map (\<lambda>tc. \<lparr>o_output = output_of (h tc), o_tool_call_id = tc_id tc\<rparr>)
                     (ra_tool_calls ev))]
             @ (case actions_post e of
                  Response True body \<Rightarrow> [Call_handleReadableStream]
                | _ \<Rightarrow> [ConsoleError ''Error submitting action result:'', SetInputDisabled False])
         \<and> inputDisabled (handleRequiresAction h e cid tok ev w)
           = (case actions_post e of Response True body \<Rightarrow> True | _ \<Rightarrow> False)"
proof -
  let ?outs = "map (\<lambda>tc. \<lparr>o_output = output_of (h tc), o_tool_call_id = tc_id tc\<rparr>) (ra_tool_calls ev)"
  let ?w1 = "emit [SetInputDisabled True]
               ((emit (map Call_functionCallHandler (ra_tool_calls ev)) w)\<lparr>inputDisabled := True\<rparr>)"
  let ?tail = "case actions_post e of
                 Response True body \<Rightarrow> [Call_handleReadableStream]
               | _ \<Rightarrow> [ConsoleError ''Error submitting action result:'', SetInputDisabled False]"
  from collect_outputs_resolved [OF assms]
  have run: "handleRequiresAction h e cid tok ev w
               = submitActionResult e cid tok (ra_run_id ev) ?outs ?w1"
    by (simp add: handleRequiresAction_def Let_def)
  then have "log (handleRequiresAction h e cid tok ev w)
      = log ?w1 @ HttpPostActions cid tok (ra_run_id ev) ?outs # ?tail"
    by (simp only: log_submitActionResult)
  then have "log (handleRequiresAction h e cid tok ev w)
      = log w @ (map Call_functionCallHandler (ra_tool_calls ev)
             @ [SetInputDisabled True, HttpPostActions cid tok (ra_run_id ev) ?outs] @ ?tail)"
    by (simp add: emit_def)
  then have trace: "new_events w (handleRequiresAction h e cid tok ev w)
      = map Call_functionCallHandler (ra_tool_calls ev)
          @ [SetInputDisabled True, HttpPostActions cid tok (ra_run_id ev) ?outs] @ ?tail"
    by (rule new_events_append)
  have "inputDisabled (submitActionResult e cid tok (ra_run_id ev) ?outs ?w1)
          = (case actions_post e of Response True body \<Rightarrow> True | _ \<Rightarrow> False)"
    by (simp add: submitActionResult_def emit_def Let_def split: response.splits bool.splits)
  with run trace show ?thesis
    by simp
qed

text \<open>
  The theorem at the batch of two tool calls, with the handler that resolves with the name
  of the function, and a submission that is answered.
\<close>

theorem requires_action_order_witness:
  "list_all (\<lambda>tc. resolve_with_name tc \<noteq> Rejected) (ra_tool_calls action_two)
   \<and> new_events world0
        (handleRequiresAction resolve_with_name (env0\<lparr>actions_post := Response True (Some ())\<rparr>)
           (js ''T'') (js ''K'') action_two world0)
      = [Call_functionCallHandler call_c1,
         Call_functionCallHandler call_c2,
         SetInputDisabled True,
         HttpPostActions (js ''T'') (js ''K'') (js ''r'')
           [\<lparr>o_output = Some (js ''f''), o_tool_call_id = js ''c1''\<rparr>,
            \<lparr>o_output = Some (js ''g''), o_tool_call_id = js ''c2''\<rparr>],
         Call_handleReadableStream]"
  using requires_action_order
    [of resolve_with_name action_two world0 "env0\<lparr>actions_post := Response True (Some ())\<rparr>"
        "js ''T''" "js ''K''"]
  by (simp add: env0_def action_two_def resolve_with_name_def call_c1_def call_c2_def)

text \<open>
  The claim as the specification states it fails in two ways. With the handler that rejects,
  both handlers are called, the input is never disabled and nothing is submitted. With the
  handler that resolves, the input is disabled only after both handler calls, not before
  them: it is still enabled while the tool calls run.
\<close>

theorem requires_action_order_counterexample:
  "handleRequiresAction reject_all (env0\<lparr>actions_post := Response True (Some ())\<rparr>)
       (js ''T'') (js ''K'') action_two world0
     = world0\<lparr>log := [Call_functionCallHandler call_c1, Call_functionCallHandler call_c2,
                       UnhandledRejection]\<rparr>
   \<and> inputDisabled
       (handleRequiresAction reject_all (env0\<lparr>actions_post := Response True (Some ())\<rparr>)
          (js ''T'') (js ''K'') action_two world0) = False
   \<and> take 3
       (new_events world0
          (handleRequiresAction resolve_with_name (env0\<lparr>actions_post := Response True (Some ())\<rparr>)
             (js ''T'') (js ''K'') action_two world0))
     = [Call_functionCallHandler call_c1, Call_functionCallHandler call_c2, SetInputDisabled True]"
  by (simp add: handleRequiresAction_def submitActionResult_def emit_def new_events_def
      reject_all_def resolve_with_name_def action_two_def env0_def world0_def)

section \<open>Thread Synchronizer\<close>

lemma cache_nonempty_window: "getThreadsFromLocalStorage w \<noteq> [] \<Longrightarrow> window_defined w"
  by (auto simp: getThreadsFromLocalStorage_def split: if_splits)

lemma fetch_success:
  assumes "window_defined w" and "chat_threads_get e = Response True (Some ths)"
  shows "fetchThreadsFromBackend e tok w
           = ((emit [HttpGetThreads tok] w)\<lparr>ls_cached_thread_ids := Some ths\<rparr>, ths)"
  using assms
  by (simp add: fetchThreadsFromBackend_def saveThreadsToLocalStorage_def emit_def Let_def)

text \<open>
  C2. With the cached id list holding exactly \<open>A\<close> and \<open>B\<close> and the backend answering the
  registry request with a list holding exactly \<open>A\<close>, \<open>B\<close> and \<open>C\<close>, synchronizing the
  thread \<open>C\<close> sends no registration POST, and afterwards the cached id list holds \<open>C\<close>.
\<close>

theorem sync_known_remotely:
  assumes "set (getThreadsFromLocalStorage w) = {A, B}"
    and "chat_threads_get e = Response True (Some backendThreads)"
    and "set backendThreads = {A, B, C}"
    and "t_id thread = C"
  shows "filter is_registration_post (new_events w (syncThreadWithBackend e thread tok w)) = []
         \<and> C \<in> set (getThreadsFromLocalStorage (syncThreadWithBackend e thread tok w))"
proof (cases "C \<in> set (getThreadsFromLocalStorage w)")
  case True
  with assms(4) have "syncThreadWithBackend e thread tok w = w"
    by (simp add: syncThreadWithBackend_def)
  with True show ?thesis
    by (simp add: new_events_self)
next
  case False
  from assms(1) have "getThreadsFromLocalStorage w \<noteq> []" by auto
  then have win: "window_defined w" by (rule cache_nonempty_window)
  from assms(3) have inb: "C \<in> set backendThreads" by simp
  from False assms(4) inb fetch_success [OF win assms(2)]
  have eq: "syncThreadWithBackend e thread tok w
            = (emit [HttpGetThreads tok] w)\<lparr>ls_cached_thread_ids := Some backendThreads\<rparr>"
    by (simp add: syncThreadWithBackend_def)
  have "new_events w (syncThreadWithBackend e thread tok w) = [HttpGetThreads tok]"
    by (rule new_events_append) (simp add: eq emit_def)
  moreover have "getThreadsFromLocalStorage (syncThreadWithBackend e thread tok w) = backendThreads"
    using win by (simp add: eq getThreadsFromLocalStorage_def emit_def)
  ultimately show ?thesis using inb by simp
qed

text \<open>The theorem at the ids \<open>"A"\<close>, \<open>"B"\<close> and \<open>"C"\<close>.\<close>

theorem sync_known_remotely_witness:
  "set (getThreadsFromLocalStorage (world0\<lparr>ls_cached_thread_ids := Some [js ''A'', js ''B'']\<rparr>))
     = {js ''A'', js ''B''}
   \<and> set [js ''A'', js ''B'', js ''C''] = {js ''A'', js ''B'', js ''C''}
   \<and> filter is_registration_post
        (new_events (world0\<lparr>ls_cached_thread_ids := Some [js ''A'', js ''B'']\<rparr>)
           (syncThreadWithBackend
              (env0\<lparr>fingerprint := Some (js ''fp''),
                    chat_threads_get := Response True (Some [js ''A'', js ''B'', js ''C'']),
                    chat_threads_post := Response True None\<rparr>)
              \<lparr>t_id = js ''C'', t_title = js ''New Chat'', t_lastMessage = js ''hi'',
               t_lastUpdated = js ''t1'', t_messages = []\<rparr>
              (js ''K'')
              (world0\<lparr>ls_cached_thread_ids := Some [js ''A'', js ''B'']\<rparr>))) = []
   \<and> js ''C'' \<in> set (getThreadsFromLocalStorage
        (syncThreadWithBackend
           (env0\<lparr>fingerprint := Some (js ''fp''),
                 chat_threads_get := Response True (Some [js ''A'', js ''B'', js ''C'']),
                 chat_threads_post := Response True None\<rparr>)
           \<lparr>t_id = js ''C'', t_title = js ''New Chat'', t_lastMessage = js ''hi'',
            t_lastUpdated = js ''t1'', t_messages = []\<rparr>
           (js ''K'')
           (world0\<lparr>ls_cached_thread_ids := Some [js ''A'', js ''B'']\<rparr>)))"
  using sync_known_remotely
    [of "world0\<lparr>ls_cached_thread_ids := Some [js ''A'', js ''B'']\<rparr>" "js ''A''" "js ''B''"
        "env0\<lparr>fingerprint := Some (js ''fp''),
              chat_threads_get := Response True (Some [js ''A'', js ''B'', js ''C'']),
              chat_threads_post := Response True None\<rparr>"
        "[js ''A'', js ''B'', js ''C'']" "js ''C''"
        "\<lparr>t_id = js ''C'', t_title = js ''New Chat'', t_lastMessage = js ''hi'',
          t_lastUpdated = js ''t1'', t_messages = []\<rparr>"
        "js ''K''"]
  by (simp add: getThreadsFromLocalStorage_def world0_def env0_def)

text \<open>
  C10. When the registry request fails, by a network error or a response that is not ok
  (or a body that does not parse), \<open>fetchThreadsFromBackend\<close> returns the empty list and the
  cached id list is what it was; so the cache is overwritten on a successful response only.
\<close>

theorem fetch_failure_keeps_cache:
  assumes "ok_body (chat_threads_get e) = None"
  shows "snd (fetchThreadsFromBackend e tok w) = []
         \<and> ls_cached_thread_ids (fst (fetchThreadsFromBackend e tok w)) = ls_cached_thread_ids w"
  using assms
  by (cases "chat_threads_get e")
     (auto simp: fetchThreadsFromBackend_def emit_def Let_def split: if_splits option.splits)

text \<open>The theorem at a response with status not ok and a cache holding \<open>"A"\<close>.\<close>

theorem fetch_failure_keeps_cache_witness:
  "ok_body (Response False (Some [js ''Z''])) = None
   \<and> snd (fetchThreadsFromBackend (env0\<lparr>chat_threads_get := Response False (Some [js ''Z''])\<rparr>)
        (js ''K'') (world0\<lparr>ls_cached_thread_ids := Some [js ''A'']\<rparr>)) = []
   \<and> ls_cached_thread_ids
        (fst (fetchThreadsFromBackend (env0\<lparr>chat_threads_get := Response False (Some [js ''Z''])\<rparr>)
           (js ''K'') (world0\<lparr>ls_cached_thread_ids := Some [js ''A'']\<rparr>)))
      = Some [js ''A'']"
  using fetch_failure_keeps_cache
    [of "env0\<lparr>chat_threads_get := Response False (Some [js ''Z''])\<rparr>"
        "js ''K''" "world0\<lparr>ls_cached_thread_ids := Some [js ''A'']\<rparr>"]
  by (simp add: world0_def)

section \<open>Submit\<close>

text \<open>
  C9. Submitting an input that is empty or all whitespace returns before anything is done:
  the state is what it was, message list and input included, and the only event is the
  \<open>preventDefault\<close> on the form event, so no quota request is sent and no message is sent.
\<close>

theorem submit_blank_noop:
  assumes "list_all is_whitespace (userInput w)"
  shows "handleSubmit e w = w\<lparr>log := log w @ [PreventDefault]\<rparr>"
  using assms by (simp add: handleSubmit_def trim_empty_iff emit_def)

text \<open>The theorem at an input of a space, a tab and a newline.\<close>

theorem submit_blank_noop_witness:
  "list_all is_whitespace [0x20, 0x09, 0x0A]
   \<and> handleSubmit (env0\<lparr>fingerprint := Some (js ''fp''), tokens_post := Response True (Some 5)\<rparr>)
        (world0\<lparr>userInput := [0x20, 0x09, 0x0A]\<rparr>)
      = world0\<lparr>userInput := [0x20, 0x09, 0x0A], log := [PreventDefault]\<rparr>"
  using submit_blank_noop
    [of "world0\<lparr>userInput := [0x20, 0x09, 0x0A]\<rparr>"
        "env0\<lparr>fingerprint := Some (js ''fp''), tokens_post := Response True (Some 5)\<rparr>"]
  by (simp add: is_whitespace_def world0_def)

text \<open>
  The quota endpoint is asked exactly when the input is not blank and the fingerprint has
  been obtained.
\<close>

lemma handleSubmit_quota_requested:
  "list_ex is_quota_request (new_events w (handleSubmit e w))
     \<longleftrightarrow> trim (userInput w) \<noteq> [] \<and> fingerprint e \<noteq> None"
proof (cases "trim (userInput w) = []")
  case True
  then show ?thesis
    by (simp add: handleSubmit_def new_events_def emit_def)
next
  case False
  show ?thesis
  proof (cases "fingerprint e")
    case None
    with False show ?thesis
      by (simp add: handleSubmit_def new_events_def emit_def handleSubmit_finally_def
          handleSubmit_catch_def)
  next
    case (Some fp)
    have "log (handleSubmit e w) = log w @ PreventDefault # HttpPostTokens fp (userToken w)
            # drop (length (log w) + 2) (log (handleSubmit e w))"
      using False Some
      by (simp add: handleSubmit_def emit_def handleSubmit_finally_def handleSubmit_catch_def
          Let_def split: response.splits option.splits)
    then have "new_events w (handleSubmit e w) = PreventDefault # HttpPostTokens fp (userToken w)
            # drop (length (log w) + 2) (log (handleSubmit e w))"
      by (rule new_events_append)
    with False Some show ?thesis
      by simp
  qed
qed

text \<open>
  C3. For every submit of an input that is not blank, with the fingerprint obtained (so that
  the quota endpoint is asked) and the endpoint answering with \<open>tokens\<close> equal to 0: the
  message list after the submit is the list before followed by exactly one message, the
  assistant message with the fixed upsell text; \<open>sendMessage\<close> is not called; and nothing
  else happens but the quota request, the storing of the quota and the enabling of the
  input.
\<close>

theorem submit_quota_zero:
  assumes "trim (userInput w) \<noteq> []"
    and "fingerprint e = Some fp"
    and "tokens_post e = Response ok (Some 0)"
  shows "messages (handleSubmit e w)
           = messages w @ [\<lparr>m_role = Some Assistant, m_text = Some upsell_text, m_isHTML = Some True\<rparr>]
         \<and> \<not> list_ex is_send (new_events w (handleSubmit e w))
         \<and> handleSubmit e w
           = w\<lparr>tokens := 0,
               messages := messages w
                 @ [\<lparr>m_role = Some Assistant, m_text = Some upsell_text, m_isHTML = Some True\<rparr>],
               inputDisabled := False,
               log := log w @ [PreventDefault, HttpPostTokens fp (userToken w),
                               SetInputDisabled False]\<rparr>"
  using assms
  by (simp add: handleSubmit_def new_events_def emit_def handleSubmit_finally_def)

text \<open>The theorem at the input \<open>"hi"\<close> with thread \<open>A\<close> displayed.\<close>

theorem submit_quota_zero_witness:
  "trim (userInput world_AB) \<noteq> []
   \<and> fingerprint env_quota0 = Some (js ''fp'')
   \<and> tokens_post env_quota0 = Response True (Some 0)
   \<and> messages (handleSubmit env_quota0 world_AB) = [message_one, upsell_message]
   \<and> new_events world_AB (handleSubmit env_quota0 world_AB)
       = [PreventDefault, HttpPostTokens (js ''fp'') (js ''K''), SetInputDisabled False]"
proof -
  have input: "trim (userInput world_AB) \<noteq> []"
    by (simp add: world_AB_def world0_def trim_def is_whitespace_def js_def)
  have fp: "fingerprint env_quota0 = Some (js ''fp'')"
    by (simp add: env_quota0_def)
  have answer: "tokens_post env_quota0 = Response True (Some 0)"
    by (simp add: env_quota0_def)
  from submit_quota_zero [OF input fp answer]
  have "messages (handleSubmit env_quota0 world_AB) = [message_one, upsell_message]"
    and "log (handleSubmit env_quota0 world_AB)
           = log world_AB @ [PreventDefault, HttpPostTokens (js ''fp'') (userToken world_AB),
                             SetInputDisabled False]"
    by (simp_all add: world_AB_def world0_def upsell_message_def)
  moreover from this(2)
  have "new_events world_AB (handleSubmit env_quota0 world_AB)
          = [PreventDefault, HttpPostTokens (js ''fp'') (userToken world_AB), SetInputDisabled False]"
    by (rule new_events_append)
  moreover have "userToken world_AB = js ''K''"
    by (simp add: world_AB_def)
  ultimately show ?thesis using input fp answer by simp
qed

section \<open>Switching threads\<close>

lemma switchThread_found:
  assumes "find (\<lambda>t. t_id t = i) (threads w) = Some T"
  shows "messages (switchThread i w) = t_messages T \<and> currentThreadId (switchThread i w) = i
         \<and> threads (switchThread i w) = threads w"
  using assms by (simp add: switchThread_def emit_def Let_def)



text \<open>
  The round trip gives back what was displayed exactly when what was displayed is what the
  thread list holds.
\<close>

lemma switch_restores_iff:
  assumes "find (\<lambda>t. t_id t = t_id T1) (threads w) = Some T1"
    and "find (\<lambda>t. t_id t = t_id T2) (threads w) = Some T2"
  shows "messages (switchThread (t_id T1) (switchThread (t_id T2) w)) = messages w
           \<longleftrightarrow> messages w = t_messages T1"
proof -
  from switchThread_found [OF assms(2)]
  have "threads (switchThread (t_id T2) w) = threads w" by simp
  with assms(1) have "find (\<lambda>t. t_id t = t_id T1) (threads (switchThread (t_id T2) w)) = Some T1"
    by simp
  from switchThread_found [OF this] show ?thesis by auto
qed


section \<open>The stream transform\<close>

lemma enqueued_transform: "enqueued (transform parse c s) = enqueued s @ [c]"
  by (simp add: transform_def split: option.splits sum.splits)

text \<open>
  C8. Whatever the chunks are and whether or not they parse as JSON, the transform enqueues
  each chunk once, as it is and in order: what comes out of the stream is what went in.
\<close>

theorem transform_forwards_every_chunk:
  "enqueued (pipeThrough parse cs s) = enqueued s @ cs"
  by (induction cs arbitrary: s) (simp_all add: enqueued_transform)

end
